theory Spec2Isabelle
  imports Complex_Main
begin

section \<open>The interpolation engine of \<^verbatim>\<open>frontend_ui/src/lib/probability.ts\<close>\<close>

text \<open>
  The module blends three n-gram tables into one next-chord distribution. It is a pure
  function of its arguments, so the embedding is a set of HOL functions, one per source
  function, with the local variables of \<^verbatim>\<open>computeProbabilities\<close> that the
  specification talks about (the three selected rows, the candidate set, the blended
  scores) named as functions of their own.

  Conventions of the embedding:
  \<^item> a JavaScript \<^verbatim>\<open>number\<close> is a \<^typ>\<open>rat\<close>: the arithmetic is exact, the rounding
    of IEEE doubles, \<^verbatim>\<open>NaN\<close> and the infinities are not part of the model;
  \<^item> an optional value (\<^verbatim>\<open>undefined\<close>) is an \<^typ>\<open>'a option\<close>;
  \<^item> a \<^verbatim>\<open>Record<string, number>\<close> whose keys are enumerated (a row of a table, the
    result) is an association list in the order \<^verbatim>\<open>Object.keys\<close> yields, looked up with
    \<^const>\<open>map_of\<close>; a JavaScript object has no repeated key, so a well-formed row has
    distinct keys;
  \<^item> an object that is only indexed (a table, a count table) is a map.
\<close>

subsection \<open>Types (\<^verbatim>\<open>types/index.ts\<close>, \<^verbatim>\<open>ContextCounts\<close>)\<close>

type_synonym number = rat

type_synonym row = "(string \<times> number) list"

type_synonym NGramModel = "string \<rightharpoonup> row"

record Models =
  unigram :: NGramModel
  bigram :: NGramModel
  trigram :: NGramModel

record InterpolationWeights =
  lambda3 :: number
  lambda2 :: number
  lambda1 :: number

text \<open>
  The fields of \<^verbatim>\<open>ContextCounts\<close> are \<^verbatim>\<open>unigram\<close>, \<^verbatim>\<open>bigram\<close> and \<^verbatim>\<open>trigram\<close> in the
  source; they carry a prefix here because record fields are global names.
\<close>

record ContextCounts =
  c_unigram :: "number option"
  c_bigram :: "number option"
  c_trigram :: "number option"

text \<open>
  \<^verbatim>\<open>metadata\<close> has type \<^verbatim>\<open>any\<close>. A falsy value is \<open>None\<close>; a truthy one is a record
  whose three count tables may each be missing (they are read with \<^verbatim>\<open>?.\<close>).
\<close>

record Metadata =
  unigram_counts :: "(string \<rightharpoonup> number) option"
  bigram_counts :: "(string \<rightharpoonup> number) option"
  trigram_counts :: "(string \<rightharpoonup> number) option"

subsection \<open>Constants\<close>

definition DEFAULT_WEIGHTS :: InterpolationWeights where
  "DEFAULT_WEIGHTS = \<lparr>lambda3 = 60 / 100, lambda2 = 30 / 100, lambda1 = 10 / 100\<rparr>"

definition BACKOFF_THRESHOLD :: number where
  "BACKOFF_THRESHOLD = 3"

subsection \<open>Array and object primitives\<close>

text \<open>\<^verbatim>\<open>xs.slice(-n)\<close>: the last \<open>n\<close> elements, all of them when there are fewer.\<close>

definition slice_last :: "nat \<Rightarrow> 'a list \<Rightarrow> 'a list" where
  "slice_last n xs = drop (length xs - n) xs"

text \<open>\<^verbatim>\<open>xs.join(sep)\<close>.\<close>

fun join :: "string \<Rightarrow> string list \<Rightarrow> string" where
  "join sep [] = []"
| "join sep [x] = x"
| "join sep (x # y # ys) = x @ sep @ join sep (y # ys)"

text \<open>\<^verbatim>\<open>v || 0\<close> on an optional number: \<^verbatim>\<open>undefined\<close> and \<open>0\<close> both give \<open>0\<close>.\<close>

definition or_zero :: "number option \<Rightarrow> number" where
  "or_zero v = (case v of None \<Rightarrow> 0 | Some x \<Rightarrow> if x = 0 then 0 else x)"

text \<open>\<^verbatim>\<open>table?.[context] || 0\<close>.\<close>

definition count_of :: "(string \<rightharpoonup> number) option \<Rightarrow> string \<Rightarrow> number" where
  "count_of table context = (case table of None \<Rightarrow> 0 | Some t \<Rightarrow> or_zero (t context))"

text \<open>\<^verbatim>\<open>r[chord] || 0\<close> on a row.\<close>

definition prob_of :: "row \<Rightarrow> string \<Rightarrow> number" where
  "prob_of r chord = or_zero (map_of r chord)"

text \<open>
  \<^verbatim>\<open>Object.keys(r).forEach(chord => s.add(chord))\<close> on a \<^verbatim>\<open>Set\<close>, which keeps its
  elements in insertion order and ignores an element it already has.
\<close>

definition set_add :: "string \<Rightarrow> string list \<Rightarrow> string list" where
  "set_add chord s = (if chord \<in> set s then s else s @ [chord])"

definition add_keys :: "row \<Rightarrow> string list \<Rightarrow> string list" where
  "add_keys r s = fold set_add (map fst r) s"

subsection \<open>\<^verbatim>\<open>getContextCounts\<close>\<close>

definition getContextCounts :: "string list \<Rightarrow> Metadata option \<Rightarrow> ContextCounts" where
  "getContextCounts progression metadata =
     (case metadata of
        None \<Rightarrow> \<lparr>c_unigram = None, c_bigram = None, c_trigram = None\<rparr>
      | Some md \<Rightarrow>
          \<lparr>c_unigram =
             (if length progression \<ge> 1
              then Some (count_of (unigram_counts md) (last progression)) else None),
           c_bigram =
             (if length progression \<ge> 2
              then Some (count_of (bigram_counts md) (join '','' (slice_last 2 progression)))
              else None),
           c_trigram =
             (if length progression \<ge> 3
              then Some (count_of (trigram_counts md) (join '','' (slice_last 3 progression)))
              else None)\<rparr>)"

subsection \<open>\<^verbatim>\<open>adjustWeights\<close>\<close>

text \<open>
  The two tests on a context count: \<^verbatim>\<open>c === undefined || c < BACKOFF_THRESHOLD\<close> in
  \<^verbatim>\<open>adjustWeights\<close> and \<^verbatim>\<open>c !== undefined && c >= BACKOFF_THRESHOLD\<close> in
  \<^verbatim>\<open>computeProbabilities\<close>.
\<close>

definition weak :: "number option \<Rightarrow> bool" where
  "weak c = (case c of None \<Rightarrow> True | Some n \<Rightarrow> n < BACKOFF_THRESHOLD)"

definition strong :: "number option \<Rightarrow> bool" where
  "strong c = (case c of None \<Rightarrow> False | Some n \<Rightarrow> n \<ge> BACKOFF_THRESHOLD)"

text \<open>First block: half of \<open>lambda3\<close> moves, 60% of it to \<open>lambda2\<close> and 40% to \<open>lambda1\<close>.\<close>

definition trigramBackoff :: "ContextCounts \<Rightarrow> InterpolationWeights \<Rightarrow> InterpolationWeights" where
  "trigramBackoff contextCounts w =
     (if weak (c_trigram contextCounts)
      then (let reduction = lambda3 w * (5 / 10)
            in \<lparr>lambda3 = lambda3 w - reduction,
                lambda2 = lambda2 w + reduction * (6 / 10),
                lambda1 = lambda1 w + reduction * (4 / 10)\<rparr>)
      else w)"

text \<open>Second block: half of the current \<open>lambda2\<close> moves to \<open>lambda1\<close>.\<close>

definition bigramBackoff :: "ContextCounts \<Rightarrow> InterpolationWeights \<Rightarrow> InterpolationWeights" where
  "bigramBackoff contextCounts w =
     (if weak (c_bigram contextCounts)
      then (let reduction = lambda2 w * (5 / 10)
            in \<lparr>lambda3 = lambda3 w,
                lambda2 = lambda2 w - reduction,
                lambda1 = lambda1 w + reduction\<rparr>)
      else w)"

text \<open>Third block: division by the total, only when the total is positive.\<close>

definition normalizeWeights :: "InterpolationWeights \<Rightarrow> InterpolationWeights" where
  "normalizeWeights w =
     (let total = lambda1 w + lambda2 w + lambda3 w
      in if total > 0
         then \<lparr>lambda3 = lambda3 w / total, lambda2 = lambda2 w / total, lambda1 = lambda1 w / total\<rparr>
         else w)"

definition adjustWeights :: "InterpolationWeights \<Rightarrow> ContextCounts \<Rightarrow> InterpolationWeights" where
  "adjustWeights weights contextCounts =
     normalizeWeights (bigramBackoff contextCounts (trigramBackoff contextCounts weights))"

subsection \<open>\<^verbatim>\<open>getModelProbabilities\<close>\<close>

definition getModelProbabilities :: "NGramModel \<Rightarrow> string \<Rightarrow> row" where
  "getModelProbabilities model context = (case model context of None \<Rightarrow> [] | Some r \<Rightarrow> r)"

subsection \<open>\<^verbatim>\<open>computeProbabilities\<close>\<close>

text \<open>The three rows the function reads, each empty when its guard fails.\<close>

definition trigramProbs :: "string list \<Rightarrow> Models \<Rightarrow> ContextCounts \<Rightarrow> row" where
  "trigramProbs progression models contextCounts =
     (if length progression \<ge> 3 \<and> strong (c_trigram contextCounts)
      then getModelProbabilities (trigram models) (join '','' (slice_last 3 progression))
      else [])"

definition bigramProbs :: "string list \<Rightarrow> Models \<Rightarrow> ContextCounts \<Rightarrow> row" where
  "bigramProbs progression models contextCounts =
     (if length progression \<ge> 2 \<and> strong (c_bigram contextCounts)
      then getModelProbabilities (bigram models) (join '','' (slice_last 2 progression))
      else [])"

definition unigramProbs :: "string list \<Rightarrow> Models \<Rightarrow> row" where
  "unigramProbs progression models =
     (if length progression \<ge> 1
      then getModelProbabilities (unigram models) (last progression)
      else [])"

text \<open>The candidate set, filled from the trigram, the bigram and the unigram row in turn.\<close>

definition allNextChords :: "row \<Rightarrow> row \<Rightarrow> row \<Rightarrow> string list" where
  "allNextChords p3 p2 p1 = add_keys p1 (add_keys p2 (add_keys p3 []))"

text \<open>The blended score of one candidate, before the final normalization.\<close>

definition interpolated :: "InterpolationWeights \<Rightarrow> row \<Rightarrow> row \<Rightarrow> row \<Rightarrow> string \<Rightarrow> number" where
  "interpolated adjustedWeights p3 p2 p1 chord =
     lambda3 adjustedWeights * prob_of p3 chord +
     lambda2 adjustedWeights * prob_of p2 chord +
     lambda1 adjustedWeights * prob_of p1 chord"

text \<open>The loop over the candidates: a candidate is stored only with a positive score.\<close>

fun blend :: "InterpolationWeights \<Rightarrow> row \<Rightarrow> row \<Rightarrow> row \<Rightarrow> string list \<Rightarrow> row" where
  "blend adjustedWeights p3 p2 p1 [] = []"
| "blend adjustedWeights p3 p2 p1 (chord # rest) =
     (if interpolated adjustedWeights p3 p2 p1 chord > 0
      then (chord, interpolated adjustedWeights p3 p2 p1 chord) # blend adjustedWeights p3 p2 p1 rest
      else blend adjustedWeights p3 p2 p1 rest)"

text \<open>\<^verbatim>\<open>Object.values(finalProbs).reduce((sum, p) => sum + p, 0)\<close>.\<close>

definition total_of :: "row \<Rightarrow> number" where
  "total_of finalProbs = foldl (+) 0 (map snd finalProbs)"

text \<open>The last block: division of every stored score by the total, when it is positive.\<close>

definition normalizeProbs :: "row \<Rightarrow> row" where
  "normalizeProbs finalProbs =
     (let total = total_of finalProbs
      in if total > 0 then map (\<lambda>(chord, p). (chord, p / total)) finalProbs else finalProbs)"

text \<open>
  The \<^verbatim>\<open>weights\<close> parameter has the default value \<^verbatim>\<open>DEFAULT_WEIGHTS\<close>, taken when the
  argument is omitted.
\<close>

definition weights_or_default :: "InterpolationWeights option \<Rightarrow> InterpolationWeights" where
  "weights_or_default weights = (case weights of None \<Rightarrow> DEFAULT_WEIGHTS | Some w \<Rightarrow> w)"

definition computeProbabilities ::
  "string list \<Rightarrow> Models \<Rightarrow> InterpolationWeights option \<Rightarrow> Metadata option \<Rightarrow> row" where
  "computeProbabilities progression models weights metadata =
     (if length progression = 0 then []
      else
        let contextCounts = getContextCounts progression metadata;
            adjustedWeights = adjustWeights (weights_or_default weights) contextCounts;
            p3 = trigramProbs progression models contextCounts;
            p2 = bigramProbs progression models contextCounts;
            p1 = unigramProbs progression models;
            cands = allNextChords p3 p2 p1
        in if length cands = 0 then []
           else normalizeProbs (blend adjustedWeights p3 p2 p1 cands))"


subsection \<open>Values of one call\<close>

text \<open>
  The properties below speak of the total of a weight triple (the local \<^verbatim>\<open>total\<close> of
  \<^verbatim>\<open>adjustWeights\<close>) and of three locals of a call of \<^verbatim>\<open>computeProbabilities\<close>: the
  candidate set \<^verbatim>\<open>allNextChords\<close>, the blended score \<^verbatim>\<open>interpolated\<close> of a chord and
  the mapping \<^verbatim>\<open>finalProbs\<close> before its normalization. They are written here as
  functions of the arguments of the call.
\<close>

definition weight_total :: "InterpolationWeights \<Rightarrow> number" where
  "weight_total w = lambda1 w + lambda2 w + lambda3 w"

definition candidates :: "string list \<Rightarrow> Models \<Rightarrow> Metadata option \<Rightarrow> string list" where
  "candidates progression models metadata =
     (let contextCounts = getContextCounts progression metadata
      in allNextChords (trigramProbs progression models contextCounts)
           (bigramProbs progression models contextCounts) (unigramProbs progression models))"

definition score ::
  "string list \<Rightarrow> Models \<Rightarrow> InterpolationWeights option \<Rightarrow> Metadata option \<Rightarrow> string \<Rightarrow> number" where
  "score progression models weights metadata chord =
     (let contextCounts = getContextCounts progression metadata
      in interpolated (adjustWeights (weights_or_default weights) contextCounts)
           (trigramProbs progression models contextCounts)
           (bigramProbs progression models contextCounts) (unigramProbs progression models) chord)"

definition finalProbs ::
  "string list \<Rightarrow> Models \<Rightarrow> InterpolationWeights option \<Rightarrow> Metadata option \<Rightarrow> row" where
  "finalProbs progression models weights metadata =
     (let contextCounts = getContextCounts progression metadata
      in blend (adjustWeights (weights_or_default weights) contextCounts)
           (trigramProbs progression models contextCounts)
           (bigramProbs progression models contextCounts) (unigramProbs progression models)
           (candidates progression models metadata))"

subsection \<open>Notions of the specification\<close>


text \<open>
  Two association lists that stand for the same JavaScript object enumerated in two
  orders: both have distinct keys and they hold the same entries.
\<close>

definition same_mapping :: "row \<Rightarrow> row \<Rightarrow> bool" where
  "same_mapping r r' \<longleftrightarrow> distinct (map fst r) \<and> distinct (map fst r') \<and> set r = set r'"

subsection \<open>Test data\<close>

text \<open>
  Scenario A of the specification: the progression C, G, Amin, a trigram, a bigram and a
  unigram row for its three contexts (the entries the scenario leaves open are filled in,
  among them one chord of probability 0), and metadata with the given counts of the
  trigram and the bigram context. Two small tables besides: one with no row at all, one
  whose only row has a single entry of probability 0.
\<close>

definition scenario_progression :: "string list" where
  "scenario_progression = [''C'', ''G'', ''Amin'']"

definition scenario_models :: Models where
  "scenario_models =
     \<lparr>unigram = [''Amin'' \<mapsto> [(''F'', 22 / 100), (''C'', 18 / 100), (''G'', 60 / 100), (''Bdim'', 0)]],
      bigram = [''G,Amin'' \<mapsto> [(''F'', 35 / 100), (''C'', 40 / 100), (''Emin'', 25 / 100)]],
      trigram = [''C,G,Amin'' \<mapsto>
         [(''F'', 40 / 100), (''C'', 25 / 100), (''Dmin'', 15 / 100), (''Emin'', 10 / 100)]]\<rparr>"

definition scenario_metadata :: "number \<Rightarrow> number \<Rightarrow> Metadata" where
  "scenario_metadata n3 n2 =
     \<lparr>unigram_counts = Some [''Amin'' \<mapsto> 9],
      bigram_counts = Some [''G,Amin'' \<mapsto> n2],
      trigram_counts = Some [''C,G,Amin'' \<mapsto> n3]\<rparr>"

text \<open>The tables of scenario A with every row enumerated in another order.\<close>

definition scenario_models_reordered :: Models where
  "scenario_models_reordered =
     \<lparr>unigram = [''Amin'' \<mapsto> [(''Bdim'', 0), (''G'', 60 / 100), (''C'', 18 / 100), (''F'', 22 / 100)]],
      bigram = [''G,Amin'' \<mapsto> [(''Emin'', 25 / 100), (''F'', 35 / 100), (''C'', 40 / 100)]],
      trigram = [''C,G,Amin'' \<mapsto>
         [(''Dmin'', 15 / 100), (''Emin'', 10 / 100), (''F'', 40 / 100), (''C'', 25 / 100)]]\<rparr>"

definition empty_models :: Models where
  "empty_models = \<lparr>unigram = Map.empty, bigram = Map.empty, trigram = Map.empty\<rparr>"

definition zero_models :: Models where
  "zero_models = \<lparr>unigram = [''C'' \<mapsto> [(''F'', 0)]], bigram = Map.empty, trigram = Map.empty\<rparr>"

section \<open>Properties\<close>

subsection \<open>Weights\<close>




lemma normalizeWeights_unchanged:
  "\<not> 0 < weight_total w \<Longrightarrow> normalizeWeights w = w"
  by (simp add: normalizeWeights_def weight_total_def Let_def)


lemma total_of_sum_list: "total_of r = sum_list (map snd r)"
proof -
  have "foldl (+) a xs = a + sum_list xs" for a :: number and xs
    by (induction xs arbitrary: a) (simp_all add: add.assoc)
  then show ?thesis by (simp add: total_of_def)
qed

lemma set_add_keys: "set (add_keys r s) = set s \<union> fst ` set r"
proof -
  have "set (fold set_add ks s) = set s \<union> set ks" for ks
    by (induction ks arbitrary: s) (auto simp: set_add_def)
  then show ?thesis by (simp add: add_keys_def)
qed

lemma distinct_add_keys: "distinct s \<Longrightarrow> distinct (add_keys r s)"
proof -
  have "distinct s \<Longrightarrow> distinct (fold set_add ks s)" for ks
    by (induction ks arbitrary: s) (auto simp: set_add_def)
  then show "distinct s \<Longrightarrow> distinct (add_keys r s)" by (simp add: add_keys_def)
qed

lemma set_allNextChords:
  "set (allNextChords p3 p2 p1) = fst ` set p3 \<union> fst ` set p2 \<union> fst ` set p1"
  by (auto simp: allNextChords_def set_add_keys)

lemma distinct_allNextChords: "distinct (allNextChords p3 p2 p1)"
  by (simp add: allNextChords_def distinct_add_keys)

lemma blend_filter:
  "blend aw p3 p2 p1 cands =
     map (\<lambda>c. (c, interpolated aw p3 p2 p1 c)) (filter (\<lambda>c. interpolated aw p3 p2 p1 c > 0) cands)"
  by (induction cands) simp_all

lemma blend_positive: "(c, v) \<in> set (blend aw p3 p2 p1 cands) \<Longrightarrow> 0 < v"
  by (auto simp: blend_filter)

lemma blend_keys:
  "map fst (blend aw p3 p2 p1 cands) = filter (\<lambda>c. interpolated aw p3 p2 p1 c > 0) cands"
  by (simp add: blend_filter comp_def)


lemma positive_sum_list_zero:
  fixes r :: row
  assumes "\<forall>(c, v) \<in> set r. 0 < v" and "sum_list (map snd r) = 0"
  shows "r = []"
proof (cases r)
  case Nil then show ?thesis .
next
  case (Cons x xs)
  have "0 \<le> sum_list (map snd xs)" using assms(1) Cons
    by (intro sum_list_nonneg) auto
  moreover have "0 < snd x" using assms(1) Cons by auto
  ultimately show ?thesis using assms(2) Cons by simp
qed




lemma keys_scaled: "map fst (map (\<lambda>(c, p). (c, p / t)) r) = map fst (r :: row)"
  by (induction r) auto

lemma adjustWeights_default_weak_strong:
  assumes "weak (c_trigram cc)" and "\<not> weak (c_bigram cc)"
  shows "adjustWeights DEFAULT_WEIGHTS cc =
     \<lparr>lambda3 = 30 / 100, lambda2 = 48 / 100, lambda1 = 22 / 100\<rparr>"
  using assms
  by (simp add: adjustWeights_def normalizeWeights_def bigramBackoff_def trigramBackoff_def
      DEFAULT_WEIGHTS_def Let_def)


lemma weak_Some: "weak (Some n) \<longleftrightarrow> n < 3"
  by (simp add: weak_def BACKOFF_THRESHOLD_def)

lemma strong_Some: "strong (Some n) \<longleftrightarrow> 3 \<le> n"
  by (simp add: strong_def BACKOFF_THRESHOLD_def)

subsection \<open>Candidates and blended scores\<close>

lemma computeProbabilities_eq:
  "computeProbabilities progression models weights metadata =
     (if progression = [] \<or> candidates progression models metadata = [] then []
      else normalizeProbs (finalProbs progression models weights metadata))"
  by (simp add: computeProbabilities_def candidates_def finalProbs_def Let_def)

lemma finalProbs_filter:
  "finalProbs p m w md =
     map (\<lambda>c. (c, score p m w md c)) (filter (\<lambda>c. 0 < score p m w md c) (candidates p m md))"
  by (simp add: finalProbs_def score_def Let_def blend_filter)

lemma finalProbs_positive: "\<forall>(c, v) \<in> set (finalProbs p m w md). 0 < v"
  by (auto simp: finalProbs_filter)

lemma distinct_candidates: "distinct (candidates p m md)"
  by (simp add: candidates_def Let_def distinct_allNextChords)



lemma finalProbs_total_zero:
  "total_of (finalProbs p m w md) = 0 \<Longrightarrow> finalProbs p m w md = []"
  using positive_sum_list_zero [OF finalProbs_positive, of p m w md]
  by (simp add: total_of_sum_list)

lemma finalProbs_zero_weights:
  assumes "lambda1 (adjustWeights (weights_or_default w) (getContextCounts p md)) = 0"
    and "lambda2 (adjustWeights (weights_or_default w) (getContextCounts p md)) = 0"
    and "lambda3 (adjustWeights (weights_or_default w) (getContextCounts p md)) = 0"
  shows "finalProbs p m w md = []"
  using assms by (simp add: finalProbs_filter score_def Let_def interpolated_def)

lemma normalizeProbs_Nil: "normalizeProbs [] = []"
  by (simp add: normalizeProbs_def total_of_def)


subsection \<open>Which tables a call reads\<close>

lemma unigramProbs_update [simp]:
  "unigramProbs p (m\<lparr>trigram := t\<rparr>) = unigramProbs p m"
  "unigramProbs p (m\<lparr>bigram := b\<rparr>) = unigramProbs p m"
  by (simp_all add: unigramProbs_def)

lemma bigramProbs_update [simp]:
  "bigramProbs p (m\<lparr>trigram := t\<rparr>) cc = bigramProbs p m cc"
  by (simp add: bigramProbs_def)

lemma trigramProbs_update [simp]:
  "trigramProbs p (m\<lparr>bigram := b\<rparr>) cc = trigramProbs p m cc"
  by (simp add: trigramProbs_def)

lemma trigramProbs_excluded:
  "\<not> (length p \<ge> 3 \<and> strong (c_trigram cc)) \<Longrightarrow> trigramProbs p m cc = []"
  by (auto simp: trigramProbs_def)




lemma c_trigram_Some:
  "c_trigram (getContextCounts p (Some md)) =
     (if length p \<ge> 3 then Some (count_of (trigram_counts md) (join '','' (slice_last 3 p))) else None)"
  by (simp add: getContextCounts_def)

lemma c_bigram_Some:
  "c_bigram (getContextCounts p (Some md)) =
     (if length p \<ge> 2 then Some (count_of (bigram_counts md) (join '','' (slice_last 2 p))) else None)"
  by (simp add: getContextCounts_def)


lemma set_candidates:
  "set (candidates p m md) =
     fst ` set (trigramProbs p m (getContextCounts p md)) \<union>
     fst ` set (bigramProbs p m (getContextCounts p md)) \<union>
     fst ` set (unigramProbs p m)"
  by (simp add: candidates_def Let_def set_allNextChords)

subsection \<open>Calls without metadata\<close>









subsection \<open>Rows enumerated in another order\<close>

lemma same_mapping_Nil: "same_mapping [] []"
  by (simp add: same_mapping_def)

lemma same_mapping_map_of: "same_mapping r r' \<Longrightarrow> map_of r = map_of r'"
  by (simp add: same_mapping_def map_of_inject_set)

lemma same_mapping_prob_of: "same_mapping r r' \<Longrightarrow> prob_of r c = prob_of r' c"
  by (simp add: prob_of_def same_mapping_map_of)

lemma same_mapping_keys: "same_mapping r r' \<Longrightarrow> fst ` set r = fst ` set r'"
  by (simp add: same_mapping_def)

lemma same_mapping_total:
  assumes "same_mapping r r'"
  shows "total_of r = total_of r'"
proof -
  have d: "distinct r" "distinct r'"
    using assms by (auto simp: same_mapping_def distinct_map)
  have "sum_list (map snd r) = sum snd (set r)" using d(1) by (rule sum_list_distinct_conv_sum_set)
  moreover have "sum_list (map snd r') = sum snd (set r')"
    using d(2) by (rule sum_list_distinct_conv_sum_set)
  ultimately show ?thesis using assms by (simp add: total_of_sum_list same_mapping_def)
qed

lemma same_mapping_normalizeProbs:
  assumes "same_mapping r r'"
  shows "same_mapping (normalizeProbs r) (normalizeProbs r')"
proof -
  have t: "total_of r = total_of r'" using assms by (rule same_mapping_total)
  have k: "map fst (map (\<lambda>(c, p). (c, p / x)) s) = map fst s" for x and s :: row
    by (rule keys_scaled)
  show ?thesis
    using assms unfolding normalizeProbs_def Let_def t same_mapping_def
    by (simp add: k del: map_map)
qed

lemma same_mapping_blend:
  assumes "distinct cands" "distinct cands'" "set cands = set cands'"
    and "\<And>c. interpolated aw p3 p2 p1 c = interpolated aw' q3 q2 q1 c"
  shows "same_mapping (blend aw p3 p2 p1 cands) (blend aw' q3 q2 q1 cands')"
  using assms by (simp add: same_mapping_def blend_keys) (simp add: blend_filter)


lemma same_mapping_getModelProbabilities:
  "rel_option same_mapping (t ctx) (t' ctx) \<Longrightarrow>
     same_mapping (getModelProbabilities t ctx) (getModelProbabilities t' ctx)"
  by (cases "t ctx"; cases "t' ctx") (simp_all add: getModelProbabilities_def same_mapping_Nil)

lemma same_mapping_interpolated:
  assumes "same_mapping p3 q3" "same_mapping p2 q2" "same_mapping p1 q1"
  shows "interpolated aw p3 p2 p1 c = interpolated aw q3 q2 q1 c"
  using assms by (simp add: interpolated_def same_mapping_prob_of [of p3 q3]
      same_mapping_prob_of [of p2 q2] same_mapping_prob_of [of p1 q1])

section \<open>The claims\<close>

subsection \<open>C8: the adjusted weights sum to one\<close>



subsection \<open>C4: renormalization of the weights\<close>




subsection \<open>C7: no prediction is an empty mapping\<close>

text \<open>
  Claim C7. For the empty progression \<^verbatim>\<open>computeProbabilities\<close> returns the empty mapping;
  so it does when the candidate set is empty, when the total of the blended scores it
  stored is zero, and when the three adjusted weights are zero. The function has no
  \<^verbatim>\<open>throw\<close>: every path returns a mapping, which is why the model has no error value.
\<close>

theorem computeProbabilities_no_prediction:
  "computeProbabilities [] models weights metadata = [] \<and>
   (candidates progression models metadata = [] \<longrightarrow>
      computeProbabilities progression models weights metadata = []) \<and>
   (total_of (finalProbs progression models weights metadata) = 0 \<longrightarrow>
      computeProbabilities progression models weights metadata = []) \<and>
   (let adjustedWeights =
          adjustWeights (weights_or_default weights) (getContextCounts progression metadata)
    in lambda1 adjustedWeights = 0 \<and> lambda2 adjustedWeights = 0 \<and> lambda3 adjustedWeights = 0 \<longrightarrow>
       computeProbabilities progression models weights metadata = [])"
  using finalProbs_total_zero [of progression models weights metadata]
    finalProbs_zero_weights [of weights progression metadata models]
  by (auto simp: computeProbabilities_eq normalizeProbs_Nil Let_def)

theorem computeProbabilities_no_prediction_witness:
  "candidates [''C''] empty_models None = [] \<and>
   computeProbabilities [''C''] empty_models None None = [] \<and>
   candidates [''C''] zero_models None = [''F''] \<and>
   total_of (finalProbs [''C''] zero_models None None) = 0 \<and>
   computeProbabilities [''C''] zero_models None None = [] \<and>
   adjustWeights (weights_or_default (Some \<lparr>lambda3 = 0, lambda2 = 0, lambda1 = 0\<rparr>))
     (getContextCounts scenario_progression (Some (scenario_metadata 5 5))) =
     \<lparr>lambda3 = 0, lambda2 = 0, lambda1 = 0\<rparr> \<and>
   computeProbabilities scenario_progression scenario_models
     (Some \<lparr>lambda3 = 0, lambda2 = 0, lambda1 = 0\<rparr>) (Some (scenario_metadata 5 5)) = []"
proof -
  have c1: "candidates [''C''] empty_models None = []" by code_simp
  have c2: "candidates [''C''] zero_models None = [''F'']" by code_simp
  have t2: "total_of (finalProbs [''C''] zero_models None None) = 0" by code_simp
  have z: "adjustWeights (weights_or_default (Some \<lparr>lambda3 = 0, lambda2 = 0, lambda1 = 0\<rparr>))
     (getContextCounts scenario_progression (Some (scenario_metadata 5 5))) =
     \<lparr>lambda3 = 0, lambda2 = 0, lambda1 = 0\<rparr>"
    by code_simp
  show ?thesis
    using c1 c2 t2 z
      computeProbabilities_no_prediction [of empty_models None None "[''C'']"]
      computeProbabilities_no_prediction [of zero_models None None "[''C'']"]
      computeProbabilities_no_prediction [of scenario_models
        "Some \<lparr>lambda3 = 0, lambda2 = 0, lambda1 = 0\<rparr>" "Some (scenario_metadata 5 5)"
        scenario_progression]
    by (simp add: Let_def)
qed

subsection \<open>C3: the result is empty or a distribution\<close>



subsection \<open>C1: the order inclusion filter\<close>




subsection \<open>C2: scenario B\<close>

text \<open>
  Claim C2. For the base weights, a trigram context of count 0 and a bigram context of
  count at least 3, the adjusted weights are \<open>lambda3 = 0.30\<close>, \<open>lambda2 = 0.48\<close>,
  \<open>lambda1 = 0.22\<close>, of sum 1, and the trigram table contributes nothing to the candidate
  set: the candidates are the keys of the bigram and of the unigram row, and they do not
  change with the trigram table.
\<close>

theorem scenario_B:
  assumes len: "length progression \<ge> 3"
    and c3: "count_of (trigram_counts md) (join '','' (slice_last 3 progression)) = 0"
    and c2: "count_of (bigram_counts md) (join '','' (slice_last 2 progression)) \<ge> 3"
  shows "adjustWeights DEFAULT_WEIGHTS (getContextCounts progression (Some md)) =
           \<lparr>lambda3 = 30 / 100, lambda2 = 48 / 100, lambda1 = 22 / 100\<rparr> \<and>
         weight_total (adjustWeights DEFAULT_WEIGHTS (getContextCounts progression (Some md))) = 1 \<and>
         trigramProbs progression models (getContextCounts progression (Some md)) = [] \<and>
         set (candidates progression models (Some md)) =
           fst ` set (getModelProbabilities (bigram models) (join '','' (slice_last 2 progression))) \<union>
           fst ` set (getModelProbabilities (unigram models) (last progression)) \<and>
         candidates progression (models\<lparr>trigram := t\<rparr>) (Some md) =
           candidates progression models (Some md)"
proof -
  let ?cc = "getContextCounts progression (Some md)"
  have w3: "weak (c_trigram ?cc)" using len c3 by (simp add: c_trigram_Some weak_Some)
  have s3: "\<not> strong (c_trigram ?cc)" using len c3 by (simp add: c_trigram_Some strong_Some)
  have w2: "\<not> weak (c_bigram ?cc)" using len c2 by (simp add: c_bigram_Some weak_Some)
  have s2: "strong (c_bigram ?cc)" using len c2 by (simp add: c_bigram_Some strong_Some)
  have a: "adjustWeights DEFAULT_WEIGHTS ?cc =
           \<lparr>lambda3 = 30 / 100, lambda2 = 48 / 100, lambda1 = 22 / 100\<rparr>"
    using w3 w2 by (rule adjustWeights_default_weak_strong)
  have t: "weight_total (adjustWeights DEFAULT_WEIGHTS ?cc) = 1"
    by (simp add: a weight_total_def)
  have e: "trigramProbs progression m ?cc = []" for m
    using s3 by (simp add: trigramProbs_excluded)
  have b: "bigramProbs progression models ?cc =
      getModelProbabilities (bigram models) (join '','' (slice_last 2 progression))"
    using len s2 by (simp add: bigramProbs_def)
  have u: "unigramProbs progression models =
      getModelProbabilities (unigram models) (last progression)"
    using len by (simp add: unigramProbs_def)
  have c: "set (candidates progression models (Some md)) =
           fst ` set (getModelProbabilities (bigram models) (join '','' (slice_last 2 progression))) \<union>
           fst ` set (getModelProbabilities (unigram models) (last progression))"
    by (simp add: set_candidates e b u)
  have n: "candidates progression (models\<lparr>trigram := t\<rparr>) (Some md) =
           candidates progression models (Some md)"
    by (simp add: candidates_def Let_def e)
  show ?thesis using a t e c n by simp
qed

theorem scenario_B_witness:
  "length scenario_progression \<ge> 3 \<and>
   count_of (trigram_counts (scenario_metadata 0 5)) (join '','' (slice_last 3 scenario_progression)) = 0 \<and>
   count_of (bigram_counts (scenario_metadata 0 5)) (join '','' (slice_last 2 scenario_progression)) \<ge> 3 \<and>
   adjustWeights DEFAULT_WEIGHTS (getContextCounts scenario_progression (Some (scenario_metadata 0 5))) =
     \<lparr>lambda3 = 30 / 100, lambda2 = 48 / 100, lambda1 = 22 / 100\<rparr> \<and>
   candidates scenario_progression scenario_models (Some (scenario_metadata 0 5)) =
     [''F'', ''C'', ''Emin'', ''G'', ''Bdim''] \<and>
   ''Dmin'' \<notin> set (candidates scenario_progression scenario_models (Some (scenario_metadata 0 5)))"
proof -
  have len: "length scenario_progression \<ge> 3" by (simp add: scenario_progression_def)
  have c3: "count_of (trigram_counts (scenario_metadata 0 5))
      (join '','' (slice_last 3 scenario_progression)) = 0"
    by code_simp
  have c2: "count_of (bigram_counts (scenario_metadata 0 5))
      (join '','' (slice_last 2 scenario_progression)) \<ge> 3"
    by code_simp
  have k2: "getModelProbabilities (bigram scenario_models) (join '','' (slice_last 2 scenario_progression)) =
      [(''F'', 35 / 100), (''C'', 40 / 100), (''Emin'', 25 / 100)]"
    by (simp add: getModelProbabilities_def scenario_models_def scenario_progression_def slice_last_def)
  have k1: "getModelProbabilities (unigram scenario_models) (last scenario_progression) =
      [(''F'', 22 / 100), (''C'', 18 / 100), (''G'', 60 / 100), (''Bdim'', 0)]"
    by (simp add: getModelProbabilities_def scenario_models_def scenario_progression_def)
  have cs: "candidates scenario_progression scenario_models (Some (scenario_metadata 0 5)) =
     [''F'', ''C'', ''Emin'', ''G'', ''Bdim'']"
    by code_simp
  have d: "''Dmin'' \<notin> set (candidates scenario_progression scenario_models (Some (scenario_metadata 0 5)))"
    using scenario_B [OF len c3 c2, of scenario_models Map.empty] by (simp add: k2 k1)
  have a: "adjustWeights DEFAULT_WEIGHTS (getContextCounts scenario_progression (Some (scenario_metadata 0 5))) =
     \<lparr>lambda3 = 30 / 100, lambda2 = 48 / 100, lambda1 = 22 / 100\<rparr>"
    using scenario_B [OF len c3 c2, of scenario_models Map.empty] by blast
  show ?thesis
    using len c3 c2 cs d a by blast
qed

subsection \<open>C5: scenario A\<close>



subsection \<open>C6: the boundary of the threshold\<close>



subsection \<open>C9: calls without metadata\<close>




subsection \<open>C10: independence of the iteration order\<close>

text \<open>
  Claim C10. \<^verbatim>\<open>computeProbabilities\<close> reads nothing but its four arguments and two
  constants, which is why its model is a function of these arguments: two calls with
  identical arguments return the same mapping. The result is moreover independent of the
  iteration order. If two sets of tables hold the same rows up to the order in which the
  keys of each row are enumerated, the two results are the same mapping (same keys, same
  probability for each key, in exact arithmetic); and running the loop over the candidate
  set in any other order gives the same mapping as the call.
\<close>

theorem iteration_order_independence:
  assumes u: "\<forall>ctx. rel_option same_mapping (unigram models ctx) (unigram models' ctx)"
    and b: "\<forall>ctx. rel_option same_mapping (bigram models ctx) (bigram models' ctx)"
    and t: "\<forall>ctx. rel_option same_mapping (trigram models ctx) (trigram models' ctx)"
  shows "same_mapping (computeProbabilities progression models weights metadata)
           (computeProbabilities progression models' weights metadata) \<and>
         (let contextCounts = getContextCounts progression metadata
          in distinct cands \<and> set cands = set (candidates progression models metadata) \<longrightarrow>
             same_mapping
               (normalizeProbs
                  (blend (adjustWeights (weights_or_default weights) contextCounts)
                     (trigramProbs progression models contextCounts)
                     (bigramProbs progression models contextCounts)
                     (unigramProbs progression models) cands))
               (computeProbabilities progression models weights metadata))"
proof -
  let ?cc = "getContextCounts progression metadata"
  let ?aw = "adjustWeights (weights_or_default weights) ?cc"
  let ?p3 = "trigramProbs progression models ?cc" and ?q3 = "trigramProbs progression models' ?cc"
  let ?p2 = "bigramProbs progression models ?cc" and ?q2 = "bigramProbs progression models' ?cc"
  let ?p1 = "unigramProbs progression models" and ?q1 = "unigramProbs progression models'"
  have m3: "same_mapping ?p3 ?q3"
    using t by (simp add: trigramProbs_def same_mapping_getModelProbabilities same_mapping_Nil)
  have m2: "same_mapping ?p2 ?q2"
    using b by (simp add: bigramProbs_def same_mapping_getModelProbabilities same_mapping_Nil)
  have m1: "same_mapping ?p1 ?q1"
    using u by (simp add: unigramProbs_def same_mapping_getModelProbabilities same_mapping_Nil)
  have i: "interpolated ?aw ?p3 ?p2 ?p1 c = interpolated ?aw ?q3 ?q2 ?q1 c" for c
    using m3 m2 m1 by (rule same_mapping_interpolated)
  have cs: "set (candidates progression models metadata) = set (candidates progression models' metadata)"
    by (simp add: set_candidates same_mapping_keys [OF m3] same_mapping_keys [OF m2]
        same_mapping_keys [OF m1])
  then have ce: "candidates progression models metadata = [] \<longleftrightarrow>
      candidates progression models' metadata = []"
    by (metis set_empty)
  have f: "same_mapping (finalProbs progression models weights metadata)
      (finalProbs progression models' weights metadata)"
    unfolding finalProbs_def Let_def
    using distinct_candidates distinct_candidates cs i by (rule same_mapping_blend)
  have one: "same_mapping (computeProbabilities progression models weights metadata)
           (computeProbabilities progression models' weights metadata)"
    using ce same_mapping_normalizeProbs [OF f]
    by (auto simp: computeProbabilities_eq same_mapping_Nil)
  have two: "same_mapping (normalizeProbs (blend ?aw ?p3 ?p2 ?p1 cands))
               (computeProbabilities progression models weights metadata)"
    if d: "distinct cands" and e: "set cands = set (candidates progression models metadata)"
  proof -
    have g: "same_mapping (blend ?aw ?p3 ?p2 ?p1 cands) (finalProbs progression models weights metadata)"
      unfolding finalProbs_def Let_def
      using d distinct_candidates e by (rule same_mapping_blend) simp
    have n: "candidates progression models metadata = [] \<Longrightarrow> cands = []"
      using e by simp
    have pn: "progression = [] \<Longrightarrow> candidates progression models metadata = []"
      by (simp add: candidates_def Let_def trigramProbs_def bigramProbs_def unigramProbs_def
          allNextChords_def add_keys_def)
    show ?thesis
      using same_mapping_normalizeProbs [OF g] n pn
      by (auto simp: computeProbabilities_eq normalizeProbs_Nil same_mapping_Nil)
  qed
  show ?thesis unfolding Let_def using one two by blast
qed

theorem iteration_order_independence_witness:
  "same_mapping
     (computeProbabilities scenario_progression scenario_models None (Some (scenario_metadata 5 5)))
     (computeProbabilities scenario_progression scenario_models_reordered None
        (Some (scenario_metadata 5 5))) \<and>
   map fst (computeProbabilities scenario_progression scenario_models None
      (Some (scenario_metadata 5 5))) = [''F'', ''C'', ''Dmin'', ''Emin'', ''G''] \<and>
   map fst (computeProbabilities scenario_progression scenario_models_reordered None
      (Some (scenario_metadata 5 5))) = [''Dmin'', ''Emin'', ''F'', ''C'', ''G'']"
proof -
  have u: "\<forall>ctx. rel_option same_mapping (unigram scenario_models ctx)
      (unigram scenario_models_reordered ctx)"
    by (auto simp: scenario_models_def scenario_models_reordered_def same_mapping_def)
  have b: "\<forall>ctx. rel_option same_mapping (bigram scenario_models ctx)
      (bigram scenario_models_reordered ctx)"
    by (auto simp: scenario_models_def scenario_models_reordered_def same_mapping_def)
  have t: "\<forall>ctx. rel_option same_mapping (trigram scenario_models ctx)
      (trigram scenario_models_reordered ctx)"
    by (auto simp: scenario_models_def scenario_models_reordered_def same_mapping_def)
  have k: "map fst (computeProbabilities scenario_progression scenario_models None
      (Some (scenario_metadata 5 5))) = [''F'', ''C'', ''Dmin'', ''Emin'', ''G'']"
    by code_simp
  have k': "map fst (computeProbabilities scenario_progression scenario_models_reordered None
      (Some (scenario_metadata 5 5))) = [''Dmin'', ''Emin'', ''F'', ''C'', ''G'']"
    by code_simp
  show ?thesis
    using iteration_order_independence [OF u b t, of scenario_progression None
        "Some (scenario_metadata 5 5)" "[]"] k k'
    by blast
qed

end
